theory Spec2Isabelle
  imports Main "HOL-Library.Sublist" "HOL-Library.AList"
begin

section \<open>Values, errors and Python helpers\<close>

text \<open>
  The two report scripts receive their filters as a dictionary of scalar values and
  raise exceptions on failure. Filter values are modelled by \<open>fval\<close>: Python's
  \<open>None\<close>, a string, an integer or a date. Floating-point filter values are not
  modelled. Exceptions are values of \<open>error\<close>; a function that can raise returns
  \<open>error + 'a\<close> with \<open>Inl\<close> for the exception.
\<close>

datatype date = Date (year: nat) (month: nat) (day: nat)

datatype fval = VNone | VStr string | VInt int | VDate date

datatype error =
    ValidationError string
  | ValueError string
  | OverflowError string
  | KeyError string

text \<open>Python truthiness of a value: \<open>None\<close>, the empty string and \<open>0\<close> are falsy.\<close>

fun truthy :: "fval \<Rightarrow> bool" where
  "truthy VNone = False"
| "truthy (VStr s) = (s \<noteq> [])"
| "truthy (VInt n) = (n \<noteq> 0)"
| "truthy (VDate d) = True"

text \<open>\<open>d.get(k)\<close> on a dictionary field that may be absent: an absent key reads as \<open>None\<close>.\<close>

definition dict_get :: "fval option \<Rightarrow> fval" where
  "dict_get v = (case v of None \<Rightarrow> VNone | Some x \<Rightarrow> x)"

text \<open>Python's \<open>sum\<close>: starts from \<open>0\<close> and adds the items from left to right.\<close>

definition py_sum :: "'v::{zero,plus} list \<Rightarrow> 'v" where
  "py_sum xs = foldl (+) 0 xs"

text \<open>Decimal digits and \<open>str\<close> of a natural number or an integer.\<close>

definition digit_char :: "nat \<Rightarrow> char" where
  "digit_char n = ''0123456789'' ! (n mod 10)"



fun str_nat :: "nat \<Rightarrow> string" where
  "str_nat n = (if n < 10 then [digit_char n] else str_nat (n div 10) @ [digit_char (n mod 10)])"

declare str_nat.simps [simp del]


section \<open>Calendar dates (datetime.date and dateutil.relativedelta)\<close>

text \<open>
  A \<open>datetime.date\<close> is a year in \<open>1..9999\<close>, a month and a day of that month; dates
  compare lexicographically. \<open>getdate\<close> is the host's parser: the model starts from
  the dates it returns.
\<close>

definition MAXYEAR :: nat where
  "MAXYEAR = 9999"

definition isleap :: "nat \<Rightarrow> bool" where
  "isleap y = (y mod 4 = 0 \<and> (y mod 100 \<noteq> 0 \<or> y mod 400 = 0))"

text \<open>\<open>calendar.monthrange(y, m)[1]\<close>, the number of days of month \<open>m\<close> of year \<open>y\<close>.\<close>

definition days_in_month :: "nat \<Rightarrow> nat \<Rightarrow> nat" where
  "days_in_month y m =
     (if m = 2 then (if isleap y then 29 else 28)
      else if m = 4 \<or> m = 6 \<or> m = 9 \<or> m = 11 then 30
      else 31)"

definition valid_date :: "date \<Rightarrow> bool" where
  "valid_date d =
     (1 \<le> year d \<and> year d \<le> MAXYEAR \<and> 1 \<le> month d \<and> month d \<le> 12 \<and>
      1 \<le> day d \<and> day d \<le> days_in_month (year d) (month d))"

definition date_less :: "date \<Rightarrow> date \<Rightarrow> bool" where
  "date_less a b =
     (year a < year b \<or>
      (year a = year b \<and> (month a < month b \<or> (month a = month b \<and> day a < day b))))"

definition date_le :: "date \<Rightarrow> date \<Rightarrow> bool" where
  "date_le a b = (date_less a b \<or> a = b)"

text \<open>
  \<open>add_months d n\<close> is \<open>d + relativedelta(months=n)\<close>. The relativedelta normalises
  \<open>n\<close> months into \<open>n div 12\<close> years and \<open>n mod 12\<close> months; adding it moves the year
  and month, clamps the day to the length of the target month and builds the date with
  \<open>date.replace\<close>, which raises \<open>ValueError\<close> for a year beyond 9999.
\<close>

definition add_months :: "date \<Rightarrow> nat \<Rightarrow> error + date" where
  "add_months d n =
     (let y0 = year d + n div 12;
          m0 = month d + n mod 12;
          y = (if m0 > 12 then y0 + 1 else y0);
          m = (if m0 > 12 then m0 - 12 else m0);
          dd = min (days_in_month y m) (day d)
      in if y > MAXYEAR then Inl (ValueError ''year is out of range'')
         else Inr (Date y m dd))"

text \<open>
  \<open>minus_one_day d\<close> is \<open>d - relativedelta(days=1)\<close>: the previous calendar day. Before
  the first day of year 1 it raises \<open>OverflowError\<close>.
\<close>

definition minus_one_day :: "date \<Rightarrow> error + date" where
  "minus_one_day d =
     (if day d > 1 then Inr (Date (year d) (month d) (day d - 1))
      else if month d > 1 then
        Inr (Date (year d) (month d - 1) (days_in_month (year d) (month d - 1)))
      else if year d > 1 then Inr (Date (year d - 1) 12 31)
      else Inl (OverflowError ''date value out of range''))"

text \<open>
  \<open>strftime\<close> with the formats \<open>%b\<close> (abbreviated month name, C locale) and \<open>%Y\<close>
  (the year as four decimal digits, zero padded).
\<close>

definition month_abbr :: "nat \<Rightarrow> string" where
  "month_abbr m =
     (if m = 1 then ''Jan'' else if m = 2 then ''Feb'' else if m = 3 then ''Mar''
      else if m = 4 then ''Apr'' else if m = 5 then ''May'' else if m = 6 then ''Jun''
      else if m = 7 then ''Jul'' else if m = 8 then ''Aug'' else if m = 9 then ''Sep''
      else if m = 10 then ''Oct'' else if m = 11 then ''Nov'' else ''Dec'')"

definition year4 :: "nat \<Rightarrow> string" where
  "year4 y =
     [digit_char (y div 1000 mod 10), digit_char (y div 100 mod 10),
      digit_char (y div 10 mod 10), digit_char (y mod 10)]"

section \<open>Report 2: the period bucketer\<close>

record bucket =
  key :: string
  label :: string
  from_date :: date
  to_date :: date

text \<open>\<open>increments.get(period, 1)\<close>.\<close>

definition increments_get :: "fval \<Rightarrow> nat" where
  "increments_get period =
     (if period = VStr ''Monthly'' then 1
      else if period = VStr ''Quarterly'' then 3
      else if period = VStr ''Half Yearly'' then 6
      else if period = VStr ''Yearly'' then 12
      else 1)"

definition make_period :: "date \<Rightarrow> date \<Rightarrow> bucket" where
  "make_period start end_d =
     \<lparr> key = month_abbr (month start) @ ''_'' @ year4 (year start),
       label = month_abbr (month start) @ '' '' @ year4 (year start),
       from_date = start,
       to_date = end_d \<rparr>"

text \<open>
  The \<open>while start <= to_date\<close> loop of \<open>get_period_date_ranges\<close>, with the list
  \<open>periods\<close> built so far. The step is the loop-invariant \<open>increments.get(period, 1)\<close>.
  An exception of the date arithmetic leaves the loop.
\<close>

function period_loop :: "fval \<Rightarrow> date \<Rightarrow> date \<Rightarrow> bucket list \<Rightarrow> error + bucket list" where
  "period_loop period to start periods =
     (if date_le start to then
        (case add_months start (increments_get period) of
           Inl e \<Rightarrow> Inl e
         | Inr nxt \<Rightarrow>
             (case minus_one_day nxt of
                Inl e \<Rightarrow> Inl e
              | Inr e0 \<Rightarrow>
                  period_loop period to nxt
                    (periods @ [make_period start (if date_less to e0 then to else e0)])))
      else Inr periods)"
  by pat_completeness auto

termination period_loop
proof (relation "measures [\<lambda>(p, t, s, acc). Suc (year t) - year s, \<lambda>(p, t, s, acc). 13 - month s]")
  show "wf (measures [\<lambda>(p, t, s, acc). Suc (year t) - year s, \<lambda>(p, t, s, acc). 13 - month s])"
    by simp
next
  fix period :: fval and to start :: date and periods :: "bucket list" and nxt e0 :: date
  assume le: "date_le start to"
    and am: "add_months start (increments_get period) = Inr nxt"
  have yle: "year start \<le> year to"
    using le by (auto simp: date_le_def date_less_def)
  have step: "increments_get period = 1 \<or> increments_get period = 3 \<or>
      increments_get period = 6 \<or> increments_get period = 12"
    by (simp add: increments_get_def)
  have "year start < year nxt \<or> (year nxt = year start \<and> month start < month nxt \<and> month nxt \<le> 12)"
    using am step by (auto simp: add_months_def Let_def split: if_splits)
  with yle
  show "((period, to, nxt, periods @ [make_period start (if date_less to e0 then to else e0)]),
         (period, to, start, periods))
        \<in> measures [\<lambda>(p, t, s, acc). Suc (year t) - year s, \<lambda>(p, t, s, acc). 13 - month s]"
    by auto
qed

definition get_period_date_ranges :: "fval \<Rightarrow> date \<Rightarrow> date \<Rightarrow> error + bucket list" where
  "get_period_date_ranges period from_d to_d = period_loop period to_d from_d []"

text \<open>
  The months counted from year 0: adding \<open>n\<close> months to a date adds \<open>n\<close> to it.
\<close>

definition month_index :: "date \<Rightarrow> nat" where
  "month_index d = 12 * year d + month d"

text \<open>
  \<open>good period to s bs\<close> describes the buckets \<open>bs\<close> that the loop appends when it is
  entered with \<open>start = s\<close>: one bucket for each round, each built from the start of
  its round, and the round after the last bucket leaves the loop.
\<close>

fun good :: "fval \<Rightarrow> date \<Rightarrow> date \<Rightarrow> bucket list \<Rightarrow> bool" where
  "good p to s [] = date_less to s"
| "good p to s (b # bs) =
     (date_le s to \<and>
      (case add_months s (increments_get p) of
         Inl e \<Rightarrow> False
       | Inr nxt \<Rightarrow>
           (case minus_one_day nxt of
              Inl e \<Rightarrow> False
            | Inr e0 \<Rightarrow>
                b = make_period s (if date_less to e0 then to else e0) \<and> good p to nxt bs)))"



section \<open>Report 1: top selling items and stock\<close>

record stock_filters =
  s_item_group :: "fval option"
  s_limit :: "fval option"
  s_sort_by :: "fval option"











definition order_by_field :: "stock_filters \<Rightarrow> string" where
  "order_by_field filters =
     (let sort_by = (if truthy (dict_get (s_sort_by filters)) then dict_get (s_sort_by filters)
                     else VStr ''Quantity'')
      in if sort_by = VStr ''Amount'' then ''total_amount'' else ''total_qty'')"











section \<open>Report 2: sales by customer group and sub-group\<close>

text \<open>
  The filters of report 2. A field is \<open>None\<close> when its key is absent from the
  dictionary. The two dates are held as \<open>getdate\<close> returns them. The translation
  function \<open>_\<close> of the host is the parameter \<open>tr\<close> of the functions that call it.
\<close>

record sales_filters =
  f_company :: "fval option"
  f_customer :: "fval option"
  f_customer_group :: "fval option"
  f_custom_sub_group :: "fval option"
  f_territory :: "fval option"
  f_item_group :: "fval option"
  f_item :: "fval option"
  f_brand :: "fval option"
  f_from_date :: "date option"
  f_to_date :: "date option"
  f_period :: "fval option"
  f_value_quantity :: "fval option"

definition no_filters :: sales_filters where
  "no_filters =
     \<lparr> f_company = None, f_customer = None, f_customer_group = None,
       f_custom_sub_group = None, f_territory = None, f_item_group = None, f_item = None,
       f_brand = None, f_from_date = None, f_to_date = None, f_period = None,
       f_value_quantity = None \<rparr>"

definition period_names :: "fval list" where
  "period_names = [VStr ''Monthly'', VStr ''Quarterly'', VStr ''Half Yearly'', VStr ''Yearly'']"

definition validate_filters :: "(string \<Rightarrow> string) \<Rightarrow> sales_filters \<Rightarrow> error + unit" where
  "validate_filters tr filters =
     (case (f_from_date filters, f_to_date filters) of
        (Some from_d, Some to_d) \<Rightarrow>
          if date_less to_d from_d
          then Inl (ValidationError (tr ''To Date must be greater than From Date''))
          else (case f_period filters of
                  Some p \<Rightarrow>
                    if p \<notin> set period_names
                    then Inl (ValidationError
                      (tr ''Period must be one of Monthly, Quarterly, Half Yearly or Yearly''))
                    else Inr ()
                | None \<Rightarrow> Inr ())
      | _ \<Rightarrow> Inl (ValidationError (tr ''Please select From Date and To Date'')))"

record column =
  col_label :: string
  fieldname :: string
  fieldtype :: "string option"
  width :: nat

definition get_columns :: "(string \<Rightarrow> string) \<Rightarrow> bucket list \<Rightarrow> column list" where
  "get_columns tr period_list =
     [\<lparr> col_label = tr ''Customer Group'', fieldname = ''customer_group'',
        fieldtype = None, width = 200 \<rparr>,
      \<lparr> col_label = tr ''Sub Group'', fieldname = ''custom_sub_group'',
        fieldtype = None, width = 180 \<rparr>] @
     map (\<lambda>p. \<lparr> col_label = label p, fieldname = key p,
                fieldtype = Some ''Float'', width = 120 \<rparr>) period_list @
     [\<lparr> col_label = tr ''Total'', fieldname = ''total'',
        fieldtype = Some ''Float'', width = 140 \<rparr>]"

subsection \<open>The aggregation query\<close>

text \<open>\<open>filters.get("value_quantity", "Value")\<close> and the expression that is summed.\<close>

definition value_expr :: "sales_filters \<Rightarrow> string" where
  "value_expr filters =
     (let value_quantity = (case f_value_quantity filters of None \<Rightarrow> VStr ''Value'' | Some v \<Rightarrow> v)
      in if value_quantity = VStr ''Value'' then ''si_item.amount'' else ''si_item.qty'')"

text \<open>
  One \<open>SUM(CASE ...)\<close> column per period, numbered by \<open>enumerate\<close>. The key of the
  period is written between backquotes as it is (the escaped copy \<open>col\<close> of the source
  is not used).
\<close>

definition period_sql_part :: "string \<Rightarrow> nat \<Rightarrow> bucket \<Rightarrow> string" where
  "period_sql_part val i p =
     ''SUM(CASE WHEN si.posting_date BETWEEN %(p_from_'' @ str_nat i @ '')s AND %(p_to_'' @
     str_nat i @ '')s THEN '' @ val @ '' ELSE 0 END) AS `'' @ key p @ ''`''"

definition period_sql_parts :: "string \<Rightarrow> bucket list \<Rightarrow> string list" where
  "period_sql_parts val period_list =
     map (\<lambda>(i, p). period_sql_part val i p) (enumerate 0 period_list)"

text \<open>\<open>sep.join(xs)\<close>.\<close>

fun join :: "string \<Rightarrow> string list \<Rightarrow> string" where
  "join sep [] = []"
| "join sep [x] = x"
| "join sep (x # y # ys) = x @ sep @ join sep (y # ys)"

text \<open>
  One optional filter: \<open>if filters.get(name): conditions.append(cond); params[name] =
  filters[name]\<close>, on the pair of the conditions and the parameters built so far.
\<close>

definition optional_filter ::
  "string \<Rightarrow> string \<Rightarrow> fval option \<Rightarrow> string list \<times> (string \<rightharpoonup> fval) \<Rightarrow>
   string list \<times> (string \<rightharpoonup> fval)" where
  "optional_filter cond name v cp =
     (if truthy (dict_get v) then (fst cp @ [cond], (snd cp)(name \<mapsto> dict_get v)) else cp)"

definition conditions_params ::
  "sales_filters \<Rightarrow> date \<Rightarrow> date \<Rightarrow> string list \<times> (string \<rightharpoonup> fval)" where
  "conditions_params filters from_d to_d =
     (optional_filter ''i.brand = %(brand)s'' ''brand'' (f_brand filters)
     (optional_filter ''si_item.item_code = %(item)s'' ''item'' (f_item filters)
     (optional_filter ''i.item_group = %(item_group)s'' ''item_group'' (f_item_group filters)
     (optional_filter ''c.territory = %(territory)s'' ''territory'' (f_territory filters)
     (optional_filter ''c.custom_sub_group = %(custom_sub_group)s'' ''custom_sub_group''
        (f_custom_sub_group filters)
     (optional_filter ''c.customer_group = %(customer_group)s'' ''customer_group''
        (f_customer_group filters)
     (optional_filter ''si.customer = %(customer)s'' ''customer'' (f_customer filters)
     (optional_filter ''si.company = %(company)s'' ''company'' (f_company filters)
       ([''si.docstatus = 1'', ''si.posting_date BETWEEN %(from_date)s AND %(to_date)s''],
        [''from_date'' \<mapsto> VDate from_d, ''to_date'' \<mapsto> VDate to_d])))))))))"


text \<open>\<open>params[f"p_from_{i}"]\<close> and \<open>params[f"p_to_{i}"]\<close> for every period.\<close>

definition period_params :: "bucket list \<Rightarrow> (string \<rightharpoonup> fval) \<Rightarrow> (string \<rightharpoonup> fval)" where
  "period_params period_list params =
     foldl (\<lambda>ps (i, p). ps(''p_from_'' @ str_nat i \<mapsto> VDate (from_date p),
                            ''p_to_'' @ str_nat i \<mapsto> VDate (to_date p)))
       params (enumerate 0 period_list)"

definition sql_select :: string where
  "sql_select =
     ''\<newline>'' @
     ''        SELECT\<newline>'' @
     ''            c.customer_group AS customer_group,\<newline>'' @
     ''            c.custom_sub_group AS custom_sub_group,\<newline>'' @
     ''            ''"

definition sql_total :: string where
  "sql_total =
     '',\<newline>'' @
     ''            -- total across periods (also derived client-side if you prefer)\<newline>'' @
     ''            SUM(''"

definition sql_from :: string where
  "sql_from =
     '') AS total\<newline>'' @
     ''        FROM\<newline>'' @
     ''            `tabSales Invoice Item` si_item\<newline>'' @
     ''            JOIN `tabSales Invoice` si ON si.name = si_item.parent\<newline>'' @
     ''            JOIN `tabCustomer` c ON si.customer = c.name\<newline>'' @
     ''            LEFT JOIN `tabItem` i ON si_item.item_code = i.name\<newline>'' @
     ''        WHERE\<newline>'' @
     ''            ''"

definition sql_group_by :: string where
  "sql_group_by =
     ''\<newline>'' @
     ''        GROUP BY\<newline>'' @
     ''            c.customer_group, c.custom_sub_group\<newline>'' @
     ''        ORDER BY\<newline>'' @
     ''            c.customer_group, c.custom_sub_group\<newline>'' @
     ''    ''"

text \<open>
  The statement and the parameters that \<open>get_aggregated_rows\<close> builds (lines 141 to
  227). \<open>filters["from_date"]\<close> raises \<open>KeyError\<close> on a missing key.
\<close>

definition aggregation_query ::
  "sales_filters \<Rightarrow> bucket list \<Rightarrow> error + string \<times> (string \<rightharpoonup> fval)" where
  "aggregation_query filters period_list =
     (case f_from_date filters of
        None \<Rightarrow> Inl (KeyError ''from_date'')
      | Some from_d \<Rightarrow>
          (case f_to_date filters of
             None \<Rightarrow> Inl (KeyError ''to_date'')
           | Some to_d \<Rightarrow>
               (let period_sql = join '',\<newline>            ''
                      (period_sql_parts (value_expr filters) period_list);
                    cp = conditions_params filters from_d to_d;
                    where_clause = join '' AND '' (fst cp);
                    params = period_params period_list (snd cp);
                    sql = sql_select @ period_sql @ sql_total @ value_expr filters @ sql_from @
                          where_clause @ sql_group_by
                in Inr (sql, params))))"

text \<open>
  A row of the result, as the executor returns it with \<open>as_dict=True\<close>: the two
  labels (\<open>None\<close> for SQL \<open>NULL\<close>), the measure columns by name and the total. A
  measure that is \<open>None\<close> is \<open>NULL\<close> or absent. Measures are of a numeric type \<open>'v\<close>.
\<close>

record 'v agg_row =
  r_customer_group :: "string option"
  r_custom_sub_group :: "string option"
  r_cols :: "string \<rightharpoonup> 'v"
  r_total :: "'v option"

text \<open>The executor: the rows it answers for a statement, and the log of the calls made.\<close>

record 'v db_state =
  db_answer :: "string \<Rightarrow> (string \<rightharpoonup> fval) \<Rightarrow> 'v agg_row list"
  db_log :: "(string \<times> (string \<rightharpoonup> fval)) list"

definition db_sql ::
  "'v db_state \<Rightarrow> string \<Rightarrow> (string \<rightharpoonup> fval) \<Rightarrow> 'v agg_row list \<times> 'v db_state" where
  "db_sql st q ps = (db_answer st q ps, st\<lparr> db_log := db_log st @ [(q, ps)] \<rparr>)"

text \<open>\<open>ensure numeric 0.0 instead of None\<close>, on one row.\<close>

definition ensure_numeric :: "bucket list \<Rightarrow> ('v::zero) agg_row \<Rightarrow> 'v agg_row" where
  "ensure_numeric period_list r =
     (let r1 = foldl (\<lambda>r p. if r_cols r (key p) = None
                             then r\<lparr> r_cols := (r_cols r)(key p \<mapsto> 0) \<rparr> else r)
                 r period_list
      in if r_total r1 = None then r1\<lparr> r_total := Some 0 \<rparr> else r1)"

definition get_aggregated_rows ::
  "('v::zero) db_state \<Rightarrow> sales_filters \<Rightarrow> bucket list \<Rightarrow>
   (error + 'v agg_row list) \<times> 'v db_state" where
  "get_aggregated_rows st filters period_list =
     (case aggregation_query filters period_list of
        Inl e \<Rightarrow> (Inl e, st)
      | Inr (sql, params) \<Rightarrow>
          (let (rows, st') = db_sql st sql params
           in (Inr (map (ensure_numeric period_list) rows), st')))"

subsection \<open>The row shaper\<close>

text \<open>
  The nested dictionary \<open>{customer_group: {subgroup: {"periods": ..., "total": ...}}}\<close>.
  Python dictionaries keep the order in which keys were first inserted, so they are
  association lists with distinct keys: \<open>d[k] = v\<close> is \<open>AList.update k v d\<close>, which
  replaces the value of a key in place and appends a new key at the end.
\<close>

record 'v sg_data =
  periods :: "(string \<times> 'v) list"
  sg_total :: 'v

text \<open>
  A display row: the fixed fields and, in \<open>cols\<close>, the period columns in the order in
  which they were assigned. Period keys are never names of the fixed fields.
\<close>

record 'v display_row =
  customer_group :: string
  custom_sub_group :: string
  total :: 'v
  indent :: nat
  cols :: "(string \<times> 'v) list"

text \<open>\<open>x or default\<close> on a label: \<open>None\<close> and the empty string are falsy.\<close>

definition or_default :: "string option \<Rightarrow> string \<Rightarrow> string" where
  "or_default v dflt = (case v of None \<Rightarrow> dflt | Some s \<Rightarrow> if s = [] then dflt else s)"

text \<open>\<open>{p["key"]: r.get(p["key"], 0.0) for p in period_list}\<close>.\<close>

definition row_periods :: "('v::zero) agg_row \<Rightarrow> bucket list \<Rightarrow> (string \<times> 'v) list" where
  "row_periods r period_list =
     foldl (\<lambda>d p. AList.update (key p) (case r_cols r (key p) of None \<Rightarrow> 0 | Some v \<Rightarrow> v) d)
       [] period_list"

text \<open>The body of the first loop of \<open>build_hierarchical_rows\<close>, for one row \<open>r\<close>.\<close>

definition nest_row ::
  "(string \<Rightarrow> string) \<Rightarrow> bucket list \<Rightarrow> (string \<times> (string \<times> ('v::zero) sg_data) list) list \<Rightarrow>
   'v agg_row \<Rightarrow> (string \<times> (string \<times> 'v sg_data) list) list" where
  "nest_row tr period_list nested r =
     (let cg = or_default (r_customer_group r) (tr ''Undefined'');
          sg = or_default (r_custom_sub_group r) (tr ''(No Sub Group)'');
          subgroups = (case map_of nested cg of None \<Rightarrow> [] | Some s \<Rightarrow> s);
          d = \<lparr> periods = row_periods r period_list,
                sg_total = (case r_total r of None \<Rightarrow> 0 | Some t \<Rightarrow> t) \<rparr>
      in AList.update cg (AList.update sg d subgroups) nested)"

text \<open>The group row of one customer group, followed by its child rows.\<close>

definition group_rows ::
  "string \<Rightarrow> (string \<times> ('v::{zero,plus}) sg_data) list \<Rightarrow> 'v display_row list" where
  "group_rows cg subgroups =
     (let group_total = py_sum (map (\<lambda>(sg, d). sg_total d) subgroups);
          p_keys = (case subgroups of [] \<Rightarrow> [] | (sg, d) # rest \<Rightarrow> map fst (periods d));
          group_row =
            \<lparr> customer_group = cg, custom_sub_group = [], total = group_total, indent = 0,
              cols = map (\<lambda>p_key. (p_key,
                        py_sum (map (\<lambda>(sg, d). case map_of (periods d) p_key of
                                                  None \<Rightarrow> 0 | Some v \<Rightarrow> v) subgroups)))
                       p_keys \<rparr>
      in group_row #
         map (\<lambda>(sg, d). \<lparr> customer_group = [], custom_sub_group = sg, total = sg_total d,
                          indent = 1, cols = periods d \<rparr>) subgroups)"

definition build_hierarchical_rows ::
  "(string \<Rightarrow> string) \<Rightarrow> ('v::{zero,plus}) agg_row list \<Rightarrow> bucket list \<Rightarrow> 'v display_row list" where
  "build_hierarchical_rows tr agg_rows period_list =
     concat (map (\<lambda>(cg, subgroups). group_rows cg subgroups)
       (foldl (nest_row tr period_list) [] agg_rows))"

subsection \<open>The chart\<close>

record 'v chart =
  labels :: "string list"
  dataset_name :: string
  dataset_values :: "'v list"
  chart_type :: string

text \<open>\<open>row.get(col, 0.0) or 0.0\<close>.\<close>

definition row_get_or_zero :: "('v::zero) display_row \<Rightarrow> string \<Rightarrow> 'v" where
  "row_get_or_zero row col =
     (let v = (case map_of (cols row) col of None \<Rightarrow> 0 | Some x \<Rightarrow> x)
      in if v = 0 then 0 else v)"

definition get_chart_data ::
  "(string \<Rightarrow> string) \<Rightarrow> sales_filters \<Rightarrow> column list \<Rightarrow> ('v::{zero,plus}) display_row list \<Rightarrow>
   bucket list \<Rightarrow> 'v chart" where
  "get_chart_data tr filters columns data period_list =
     (let period_cols = map key period_list;
          totals = map (\<lambda>col. py_sum (map (\<lambda>row. row_get_or_zero row col) data)) period_cols
      in \<lparr> labels = map label period_list, dataset_name = tr ''Sales'',
           dataset_values = totals, chart_type = ''bar'' \<rparr>)"

subsection \<open>The entry point\<close>

text \<open>\<open>filters.get("period", "Monthly")\<close>.\<close>

definition filters_period :: "sales_filters \<Rightarrow> fval" where
  "filters_period filters = (case f_period filters of None \<Rightarrow> VStr ''Monthly'' | Some p \<Rightarrow> p)"

record 'v report =
  rep_columns :: "column list"
  rep_data :: "'v display_row list"
  rep_chart :: "'v chart"

definition execute ::
  "(string \<Rightarrow> string) \<Rightarrow> ('v::{zero,plus}) db_state \<Rightarrow> sales_filters option \<Rightarrow>
   (error + 'v report) \<times> 'v db_state" where
  "execute tr st filters_arg =
     (let filters = (case filters_arg of None \<Rightarrow> no_filters | Some f \<Rightarrow> f)
      in case validate_filters tr filters of
           Inl e \<Rightarrow> (Inl e, st)
         | Inr u \<Rightarrow>
             (case (f_from_date filters, f_to_date filters) of
                (Some from_d, Some to_d) \<Rightarrow>
                  (case get_period_date_ranges (filters_period filters) from_d to_d of
                     Inl e \<Rightarrow> (Inl e, st)
                   | Inr period_list \<Rightarrow>
                       (let columns = get_columns tr period_list
                        in case get_aggregated_rows st filters period_list of
                             (Inl e, st') \<Rightarrow> (Inl e, st')
                           | (Inr agg_rows, st') \<Rightarrow>
                               (let data = build_hierarchical_rows tr agg_rows period_list;
                                    chart = get_chart_data tr filters columns data period_list
                                in (Inr \<lparr> rep_columns = columns, rep_data = data,
                                          rep_chart = chart \<rparr>, st'))))
              | (None, _) \<Rightarrow> (Inl (KeyError ''from_date''), st)
              | (_, None) \<Rightarrow> (Inl (KeyError ''to_date''), st)))"

subsection \<open>Reading the nested dictionary and the rows\<close>

text \<open>
  The names of the fixed fields of a display row. The record \<open>display_row\<close> is the
  dictionary of the source as long as no period key is one of them.
\<close>

definition fixed_fields :: "string list" where
  "fixed_fields = [''customer_group'', ''custom_sub_group'', ''total'', ''indent'']"









section \<open>Sample inputs\<close>

text \<open>Concrete filters and an executor with no rows, on which the results are evaluated.\<close>

definition sample_filters :: sales_filters where
  "sample_filters = no_filters\<lparr> f_from_date := Some (Date 2025 3 1), f_to_date := Some (Date 2025 1 31) \<rparr>"

definition empty_db :: "int db_state" where
  "empty_db = \<lparr> db_answer = (\<lambda>q ps. []), db_log = [] \<rparr>"

definition weekly_filters :: sales_filters where
  "weekly_filters =
     no_filters\<lparr> f_from_date := Some (Date 2025 1 1), f_to_date := Some (Date 2025 1 31),
                 f_period := Some (VStr ''Weekly''), f_value_quantity := Some (VStr ''Amount'') \<rparr>"

definition sample_stock_filters :: stock_filters where
  "sample_stock_filters =
     \<lparr> s_item_group = None, s_limit = None, s_sort_by = Some (VStr ''Popularity'') \<rparr>"







section \<open>Properties of the calendar arithmetic\<close>

lemma date_less_irrefl: "\<not> date_less a a" by (simp add: date_less_def)
lemma date_less_trans: "date_less a b \<Longrightarrow> date_less b c \<Longrightarrow> date_less a c"
  by (auto simp: date_less_def)
lemma date_le_less_trans: "date_le a b \<Longrightarrow> date_less b c \<Longrightarrow> date_less a c"
  by (auto simp: date_le_def dest: date_less_trans)
lemma date_less_asym: "date_less a b \<Longrightarrow> \<not> date_less b a"
  by (auto simp: date_less_def)
lemma date_linear: "date_less a b \<or> a = b \<or> date_less b a"
  by (cases a; cases b) (auto simp: date_less_def)
lemma not_date_le: "(\<not> date_le a b) = date_less b a"
  using date_linear [of a b] date_less_asym [of a b] date_less_irrefl [of a]
  by (auto simp: date_le_def)

lemma days_in_month_ge: "28 \<le> days_in_month y m"
  by (simp add: days_in_month_def)

lemma add_months_month_index: "add_months d n = Inr d' \<Longrightarrow> month_index d' = month_index d + n"
  by (auto simp: add_months_def Let_def month_index_def split: if_splits)

lemma days_in_month_pos: "Suc 0 \<le> days_in_month y m"
  by (simp add: days_in_month_def)

lemma add_months_valid: "valid_date d \<Longrightarrow> add_months d n = Inr d' \<Longrightarrow> valid_date d'"
  by (auto simp: add_months_def Let_def valid_date_def days_in_month_pos split: if_splits)


lemma month_index_less: "valid_date a \<Longrightarrow> valid_date b \<Longrightarrow> month_index a < month_index b \<Longrightarrow> date_less a b"
  by (auto simp: valid_date_def month_index_def date_less_def)


lemma minus_one_day_spec:
  assumes v': "valid_date d'" and v: "valid_date d" and less: "date_less d d'"
  shows "\<exists>e. minus_one_day d' = Inr e \<and> valid_date e \<and> date_le d e \<and> date_less e d'"
proof -
  consider (a) "day d' > 1" | (b) "day d' = 1" "month d' > 1"
    | (c) "day d' = 1" "month d' = 1" "year d' > 1"
    | (d) "day d' = 1" "month d' = 1" "year d' = 1"
    using v' unfolding valid_date_def by linarith
  then show ?thesis
  proof cases
    case a
    then have "minus_one_day d' = Inr (Date (year d') (month d') (day d' - 1))"
      by (simp add: minus_one_day_def)
    moreover have "valid_date (Date (year d') (month d') (day d' - 1))"
      using a v' by (auto simp: valid_date_def)
    moreover have "date_less (Date (year d') (month d') (day d' - 1)) d'"
      using a by (simp add: date_less_def)
    moreover have "date_le d (Date (year d') (month d') (day d' - 1))"
      using a less by (cases d) (auto simp: date_less_def date_le_def)
    ultimately show ?thesis by blast
  next
    case b
    let ?e = "Date (year d') (month d' - 1) (days_in_month (year d') (month d' - 1))"
    have "minus_one_day d' = Inr ?e"
      using b by (simp add: minus_one_day_def)
    moreover have "valid_date ?e"
      using b v' by (auto simp: valid_date_def days_in_month_pos)
    moreover have "date_less ?e d'"
      using b by (simp add: date_less_def)
    moreover have "date_le d ?e"
    proof -
      from less b v have "year d < year d' \<or> (year d = year d' \<and> month d < month d')"
        by (auto simp: date_less_def valid_date_def)
      then consider "year d < year d'" | "year d = year d'" "month d < month d' - 1"
        | "year d = year d'" "month d = month d' - 1"
        by linarith
      then show ?thesis
      proof cases
        case 1
        then show ?thesis by (simp add: date_le_def date_less_def)
      next
        case 2
        then show ?thesis by (simp add: date_le_def date_less_def)
      next
        case 3
        then have "day d \<le> days_in_month (year d') (month d' - 1)"
          using v by (simp add: valid_date_def)
        with 3 show ?thesis
          by (cases d) (auto simp: date_le_def date_less_def)
      qed
    qed
    ultimately show ?thesis by blast
  next
    case c
    let ?e = "Date (year d' - 1) 12 31"
    have "minus_one_day d' = Inr ?e"
      using c by (simp add: minus_one_day_def)
    moreover have "valid_date ?e"
      using c v' by (auto simp: valid_date_def days_in_month_def)
    moreover have "date_less ?e d'"
      using c by (simp add: date_less_def)
    moreover have "date_le d ?e"
    proof -
      from less c v have "year d < year d'"
        by (auto simp: date_less_def valid_date_def)
      then consider "year d < year d' - 1" | "year d = year d' - 1" "month d < 12"
        | "year d = year d' - 1" "month d = 12"
        using v unfolding valid_date_def by linarith
      then show ?thesis
      proof cases
        case 1
        then show ?thesis by (simp add: date_le_def date_less_def)
      next
        case 2
        then show ?thesis by (simp add: date_le_def date_less_def)
      next
        case 3
        then have "day d \<le> 31"
          using v by (simp add: valid_date_def days_in_month_def)
        with 3 show ?thesis
          by (cases d) (auto simp: date_le_def date_less_def)
      qed
    qed
    ultimately show ?thesis by blast
  next
    case d
    then have False
      using less v by (auto simp: date_less_def valid_date_def)
    then show ?thesis ..
  qed
qed

lemma increments_get_pos: "0 < increments_get p"
  by (simp add: increments_get_def)

lemma add_months_less:
  assumes "valid_date d" "add_months d (increments_get p) = Inr d'"
  shows "date_less d d'"
proof -
  have "month_index d < month_index d'"
    using add_months_month_index [OF assms(2)] increments_get_pos [of p] by simp
  then show ?thesis
    using month_index_less [OF assms(1) add_months_valid [OF assms]] by simp
qed




lemma good_key:
  "good p to s (b # bs) \<Longrightarrow> b = make_period (from_date b) (to_date b)"
  by (auto simp: make_period_def split: sum.splits)



lemma good_bucket:
  assumes "good p to s bs" "i < length bs" "valid_date s" "valid_date to"
  shows "date_le (from_date (bs ! i)) (to_date (bs ! i)) \<and>
         valid_date (from_date (bs ! i)) \<and> valid_date (to_date (bs ! i)) \<and>
         date_le (to_date (bs ! i)) to \<and>
         bs ! i = make_period (from_date (bs ! i)) (to_date (bs ! i))"
  using assms
proof (induction bs arbitrary: s i)
  case Nil
  then show ?case by simp
next
  case (Cons b bs)
  from Cons.prems(1) obtain nxt e0 where
    le: "date_le s to" and nxt: "add_months s (increments_get p) = Inr nxt"
    and e0: "minus_one_day nxt = Inr e0"
    and b: "b = make_period s (if date_less to e0 then to else e0)"
    and g: "good p to nxt bs"
    by (auto split: sum.splits)
  have vn: "valid_date nxt" by (rule add_months_valid [OF Cons.prems(3) nxt])
  show ?case
  proof (cases i)
    case 0
    have e: "valid_date e0" "date_le s e0"
      using minus_one_day_spec [OF vn Cons.prems(3) add_months_less [OF Cons.prems(3) nxt]] e0
      by simp_all
    have "date_le (if date_less to e0 then to else e0) to"
      using not_date_le [of e0 to] by (auto simp: date_le_def)
    then show ?thesis
      using 0 b le e Cons.prems(3,4) by (simp add: make_period_def)
  next
    case (Suc j)
    then have "j < length bs" using Cons.prems(2) by simp
    from Cons.IH [OF g this vn Cons.prems(4)] Suc show ?thesis by simp
  qed
qed



section \<open>The period bucketer\<close>






section \<open>The bucket keys\<close>

lemma period_loop_Inr_good:
  assumes "valid_date to" "valid_date start" "period_loop p to start acc = Inr r"
  shows "\<exists>bs. r = acc @ bs \<and> good p to start bs"
  using assms
proof (induction p to start acc rule: period_loop.induct)
  case (1 period to start periods)
  show ?case
  proof (cases "date_le start to")
    case False
    then have "date_less to start" by (simp add: not_date_le)
    with False "1.prems"(3) show ?thesis by simp
  next
    case True
    from True "1.prems"(3) obtain nxt where nxt: "add_months start (increments_get period) = Inr nxt"
      by (cases "add_months start (increments_get period)") auto
    from True "1.prems"(3) nxt obtain e0 where e0: "minus_one_day nxt = Inr e0"
      by (cases "minus_one_day nxt") auto
    have vn: "valid_date nxt" by (rule add_months_valid [OF "1.prems"(2) nxt])
    let ?b = "make_period start (if date_less to e0 then to else e0)"
    have "period_loop period to nxt (periods @ [?b]) = Inr r"
      using True nxt e0 "1.prems"(3) by simp
    from "1.IH" [OF True nxt e0 "1.prems"(1) vn this]
    obtain bs where bs: "r = (periods @ [?b]) @ bs" "good period to nxt bs" by blast
    have "r = periods @ (?b # bs)" using bs(1) by simp
    moreover have "good period to start (?b # bs)"
      using True nxt e0 bs(2) by simp
    ultimately show ?thesis by blast
  qed
qed






lemma month_abbr_length: "length (month_abbr m) = 3"
  by (simp add: month_abbr_def)










section \<open>Validation of the filters of report 2\<close>

lemma validate_filters_cases:
  "validate_filters tr f =
     (if f_from_date f = None \<or> f_to_date f = None
      then Inl (ValidationError (tr ''Please select From Date and To Date''))
      else if date_less (the (f_to_date f)) (the (f_from_date f))
      then Inl (ValidationError (tr ''To Date must be greater than From Date''))
      else if f_period f \<noteq> None \<and> the (f_period f) \<notin> set period_names
      then Inl (ValidationError (tr ''Period must be one of Monthly, Quarterly, Half Yearly or Yearly''))
      else Inr ())"
  by (auto simp: validate_filters_def split: option.splits)

lemma execute_validation_error:
  "validate_filters tr f = Inl e \<Longrightarrow> execute tr st (Some f) = (Inl e, st)"
  by (simp add: execute_def)

text \<open>
  Claim C5. \<open>validate_filters\<close> raises a validation error exactly when
  \<open>from_date\<close> or \<open>to_date\<close> is missing, or \<open>to_date\<close> is before \<open>from_date\<close>, or a
  \<open>period\<close> is supplied that is not one of the four names; otherwise it returns. Equal
  dates pass. When it raises, \<open>execute\<close> returns that error and the executor's state
  is the one it started with: no statement was sent, and there is no report.
\<close>

theorem validate_filters_iff:
  "((\<exists>msg. validate_filters tr f = Inl (ValidationError msg)) \<longleftrightarrow>
      (f_from_date f = None \<or> f_to_date f = None \<or>
       (\<exists>a b. f_from_date f = Some a \<and> f_to_date f = Some b \<and> date_less b a) \<or>
       (\<exists>p. f_period f = Some p \<and> p \<notin> set period_names))) \<and>
   (validate_filters tr f = Inr () \<or> (\<exists>msg. validate_filters tr f = Inl (ValidationError msg))) \<and>
   (f_from_date f = Some d \<and> f_to_date f = Some d \<and>
      (f_period f = None \<or> (\<exists>p \<in> set period_names. f_period f = Some p))
      \<longrightarrow> validate_filters tr f = Inr ()) \<and>
   (\<forall>e. validate_filters tr f = Inl e \<longrightarrow>
      execute tr st (Some f) = (Inl e, st) \<and> db_log (snd (execute tr st (Some f))) = db_log st)"
proof (intro conjI)
  show "(\<exists>msg. validate_filters tr f = Inl (ValidationError msg)) \<longleftrightarrow>
      (f_from_date f = None \<or> f_to_date f = None \<or>
       (\<exists>a b. f_from_date f = Some a \<and> f_to_date f = Some b \<and> date_less b a) \<or>
       (\<exists>p. f_period f = Some p \<and> p \<notin> set period_names))"
    by (auto simp: validate_filters_cases)
  show "validate_filters tr f = Inr () \<or> (\<exists>msg. validate_filters tr f = Inl (ValidationError msg))"
    by (simp add: validate_filters_cases)
  show "f_from_date f = Some d \<and> f_to_date f = Some d \<and>
      (f_period f = None \<or> (\<exists>p \<in> set period_names. f_period f = Some p))
      \<longrightarrow> validate_filters tr f = Inr ()"
    by (auto simp: validate_filters_cases date_less_irrefl)
  show "\<forall>e. validate_filters tr f = Inl e \<longrightarrow>
      execute tr st (Some f) = (Inl e, st) \<and> db_log (snd (execute tr st (Some f))) = db_log st"
    by (simp add: execute_validation_error)
qed

theorem validate_filters_iff_witness:
  "validate_filters (\<lambda>s. s) sample_filters =
     Inl (ValidationError ''To Date must be greater than From Date'') \<and>
   f_from_date sample_filters = Some (Date 2025 3 1) \<and>
   f_to_date sample_filters = Some (Date 2025 1 31) \<and>
   date_less (Date 2025 1 31) (Date 2025 3 1) \<and>
   execute (\<lambda>s. s) empty_db (Some sample_filters) =
     (Inl (ValidationError ''To Date must be greater than From Date''), empty_db) \<and>
   db_log (snd (execute (\<lambda>s. s) empty_db (Some sample_filters))) = []"
proof -
  have v: "validate_filters (\<lambda>s. s) sample_filters =
     Inl (ValidationError ''To Date must be greater than From Date'')"
    by (simp add: validate_filters_def sample_filters_def no_filters_def date_less_def)
  have "\<forall>e. validate_filters (\<lambda>s. s) sample_filters = Inl e \<longrightarrow>
      execute (\<lambda>s. s) empty_db (Some sample_filters) = (Inl e, empty_db) \<and>
      db_log (snd (execute (\<lambda>s. s) empty_db (Some sample_filters))) = db_log empty_db"
    using validate_filters_iff [of "\<lambda>s. s" sample_filters "Date 2025 1 1" empty_db] by blast
  with v have "execute (\<lambda>s. s) empty_db (Some sample_filters) =
     (Inl (ValidationError ''To Date must be greater than From Date''), empty_db) \<and>
     db_log (snd (execute (\<lambda>s. s) empty_db (Some sample_filters))) = db_log empty_db"
    by blast
  then show ?thesis
    using v by (simp add: sample_filters_def no_filters_def date_less_def empty_db_def)
qed


section \<open>Defaults of the enumerated filters\<close>

text \<open>
  Claim C7, as amended. A \<open>sort_by\<close> that is not \<open>Amount\<close> (absent, falsy or any
  other value) orders by \<open>total_qty\<close>. An absent \<open>period\<close> is Monthly; a supplied
  \<open>period\<close> outside the four names is not defaulted but rejected by the validation
  (the bucketer alone would step by one month). An absent \<open>value_quantity\<close> is
  \<open>Value\<close> and sums the amount; a supplied value other than \<open>Value\<close> sums the
  quantity.
\<close>

theorem defaults_as_coded:
  "(dict_get (s_sort_by sf) \<noteq> VStr ''Amount'' \<longrightarrow> order_by_field sf = ''total_qty'') \<and>
   (dict_get (s_sort_by sf) = VStr ''Amount'' \<longrightarrow> order_by_field sf = ''total_amount'') \<and>
   (f_period f = None \<longrightarrow>
      filters_period f = VStr ''Monthly'' \<and> increments_get (filters_period f) = 1) \<and>
   (\<forall>p. f_period f = Some p \<and> p \<notin> set period_names \<longrightarrow>
      increments_get p = 1 \<and>
      (\<exists>msg. validate_filters tr f = Inl (ValidationError msg)) \<and>
      (\<exists>msg. execute tr st (Some f) = (Inl (ValidationError msg), st))) \<and>
   (f_value_quantity f = None \<longrightarrow> value_expr f = ''si_item.amount'') \<and>
   (f_value_quantity f = Some (VStr ''Value'') \<longrightarrow> value_expr f = ''si_item.amount'') \<and>
   (\<forall>v. f_value_quantity f = Some v \<and> v \<noteq> VStr ''Value'' \<longrightarrow> value_expr f = ''si_item.qty'')"
proof (intro conjI)
  show "dict_get (s_sort_by sf) \<noteq> VStr ''Amount'' \<longrightarrow> order_by_field sf = ''total_qty''"
    by (simp add: order_by_field_def)
  show "dict_get (s_sort_by sf) = VStr ''Amount'' \<longrightarrow> order_by_field sf = ''total_amount''"
    by (simp add: order_by_field_def)
  show "f_period f = None \<longrightarrow>
      filters_period f = VStr ''Monthly'' \<and> increments_get (filters_period f) = 1"
    by (simp add: filters_period_def increments_get_def)
  show "\<forall>p. f_period f = Some p \<and> p \<notin> set period_names \<longrightarrow>
      increments_get p = 1 \<and>
      (\<exists>msg. validate_filters tr f = Inl (ValidationError msg)) \<and>
      (\<exists>msg. execute tr st (Some f) = (Inl (ValidationError msg), st))"
  proof (intro allI impI)
    fix p assume p: "f_period f = Some p \<and> p \<notin> set period_names"
    then have i: "increments_get p = 1"
      by (auto simp: increments_get_def period_names_def)
    from p have "\<exists>msg. validate_filters tr f = Inl (ValidationError msg)"
      by (simp add: validate_filters_cases)
    then obtain msg where m: "validate_filters tr f = Inl (ValidationError msg)" ..
    then have "execute tr st (Some f) = (Inl (ValidationError msg), st)"
      by (rule execute_validation_error)
    with i m show "increments_get p = 1 \<and>
      (\<exists>msg. validate_filters tr f = Inl (ValidationError msg)) \<and>
      (\<exists>msg. execute tr st (Some f) = (Inl (ValidationError msg), st))"
      by blast
  qed
  show "f_value_quantity f = None \<longrightarrow> value_expr f = ''si_item.amount''"
    by (simp add: value_expr_def)
  show "f_value_quantity f = Some (VStr ''Value'') \<longrightarrow> value_expr f = ''si_item.amount''"
    by (simp add: value_expr_def)
  show "\<forall>v. f_value_quantity f = Some v \<and> v \<noteq> VStr ''Value'' \<longrightarrow> value_expr f = ''si_item.qty''"
    by (simp add: value_expr_def)
qed

theorem defaults_as_coded_witness:
  "dict_get (s_sort_by sample_stock_filters) \<noteq> VStr ''Amount'' \<and>
   order_by_field sample_stock_filters = ''total_qty'' \<and>
   f_period weekly_filters = Some (VStr ''Weekly'') \<and> VStr ''Weekly'' \<notin> set period_names \<and>
   (\<exists>msg. execute (\<lambda>s. s) empty_db (Some weekly_filters) = (Inl (ValidationError msg), empty_db)) \<and>
   f_value_quantity weekly_filters = Some (VStr ''Amount'') \<and>
   value_expr weekly_filters = ''si_item.qty''"
proof -
  have a: "dict_get (s_sort_by sample_stock_filters) \<noteq> VStr ''Amount''"
    by (simp add: sample_stock_filters_def dict_get_def)
  have b: "f_period weekly_filters = Some (VStr ''Weekly'') \<and> VStr ''Weekly'' \<notin> set period_names"
    by (simp add: weekly_filters_def no_filters_def period_names_def)
  have c: "f_value_quantity weekly_filters = Some (VStr ''Amount'') \<and> VStr ''Amount'' \<noteq> VStr ''Value''"
    by (simp add: weekly_filters_def no_filters_def)
  from defaults_as_coded [of sample_stock_filters weekly_filters "\<lambda>s. s" empty_db] a b c
  show ?thesis by blast
qed


text \<open>
  The claim as stated fails for \<open>period\<close> and \<open>value_quantity\<close>: the period
  \<open>Weekly\<close> is rejected instead of read as Monthly, and the value_quantity \<open>Amount\<close>
  (neither \<open>Value\<close> nor \<open>Qty\<close>) sums the quantity instead of the amount.
\<close>

theorem defaults_not_applied:
  "VStr ''Weekly'' \<notin> set period_names \<and>
   validate_filters (\<lambda>s. s) weekly_filters =
     Inl (ValidationError ''Period must be one of Monthly, Quarterly, Half Yearly or Yearly'') \<and>
   execute (\<lambda>s. s) empty_db (Some weekly_filters) =
     (Inl (ValidationError ''Period must be one of Monthly, Quarterly, Half Yearly or Yearly''),
      empty_db) \<and>
   VStr ''Amount'' \<noteq> VStr ''Value'' \<and> VStr ''Amount'' \<noteq> VStr ''Qty'' \<and>
   value_expr weekly_filters = ''si_item.qty'' \<and>
   value_expr weekly_filters \<noteq> ''si_item.amount''"
  by (simp add: weekly_filters_def no_filters_def period_names_def validate_filters_def
      execute_def value_expr_def date_less_def)

section \<open>The limit of report 1\<close>







section \<open>The statement of report 1\<close>




























section \<open>The conditions of the aggregation query\<close>









section \<open>The rows of report 2\<close>

text \<open>
  The keys that the bucketer makes have eight characters, so none of them is the name
  of a fixed field of a display row.
\<close>

lemma bucket_keys_not_fields:
  assumes "valid_date from_d" "valid_date to_d"
    and "get_period_date_ranges period from_d to_d = Inr bs" and "b \<in> set bs"
  shows "key b \<notin> set fixed_fields"
proof -
  have g: "good period to_d from_d bs"
    using period_loop_Inr_good [OF assms(2) assms(1), of period "[]" bs] assms(3)
    by (simp add: get_period_date_ranges_def)
  from assms(4) obtain i where i: "i < length bs" and b: "b = bs ! i"
    by (auto simp: in_set_conv_nth)
  have "\<exists>s e. bs ! i = make_period s e"
    using good_bucket [OF g i assms(1) assms(2)] by blast
  then obtain s e where "b = make_period s e"
    unfolding b by blast
  then have "length (key b) = 8"
    by (simp add: make_period_def month_abbr_length year4_def)
  then show ?thesis
    by (auto simp: fixed_fields_def)
qed

lemma py_sum_Nil: "py_sum [] = 0"
  by (simp add: py_sum_def)





lemma distinct_fold_keys:
  "distinct acc \<Longrightarrow> distinct (foldl (\<lambda>acc k. if k \<in> set acc then acc else acc @ [k]) acc ks)"
  by (induction ks arbitrary: acc) auto

































end
